theory Spec2Isabelle
  imports Main
begin

section \<open>Cloud Storage backend: accounts, sessions and the auth gate\<close>

text \<open>
  A shallow embedding of \<^verbatim>\<open>backend/models/User.js\<close>, \<^verbatim>\<open>backend/middleware/auth.js\<close>
  and the three account routes (\<^verbatim>\<open>/register\<close>, \<^verbatim>\<open>/login\<close>, \<^verbatim>\<open>/phone-login\<close>).

  Conventions.
  \<^item> A JavaScript string is a \<open>string\<close>; a \<open>char\<close> is one character, a code point
    below 256.
  \<^item> \<open>Date.now()\<close> is an input \<open>now\<close> of each handler, in milliseconds.
  \<^item> The \<open>User\<close> collection is the list of its documents, in insertion order.
  \<^item> A handler returns its HTTP response together with the collection it leaves behind.
  \<^item> The npm packages the routes call (express-validator, bcryptjs, jsonwebtoken,
    firebase-admin) are not part of the repository. What they compute is a field of the
    record \<open>env\<close>, so every theorem holds for whatever these packages return; what the
    packages do around that computation and the routes rely on (query casting in
    mongoose, the \<open>iat\<close>/\<open>exp\<close> bookkeeping of jsonwebtoken) is written out below.
\<close>

subsection \<open>Strings\<close>

text \<open>
  \<^verbatim>\<open>String.prototype\<close>'s \<^verbatim>\<open>startsWith\<close>, \<^verbatim>\<open>substring\<close> (one argument),
  \<^verbatim>\<open>toLowerCase\<close> and \<^verbatim>\<open>trim\<close>, on strings whose characters are the code points
  below 256, which is what a \<open>char\<close> holds.
  \<^item> \<^verbatim>\<open>toLowerCase\<close> lowers \<^verbatim>\<open>A\<close> to \<^verbatim>\<open>Z\<close> and the Latin-1 capitals U+00C0 to U+00DE
    (U+00D7, the multiplication sign, is no letter); each is 32 below its small letter.
  \<^item> \<^verbatim>\<open>trim\<close> strips ECMAScript's white space and line terminators from both ends:
    below 256 these are tab, line feed, vertical tab, form feed, carriage return
    (9 to 13), the blank (32) and the no-break space U+00A0 (160).
\<close>

definition startsWith :: "string \<Rightarrow> string \<Rightarrow> bool" where
  "startsWith s p = (take (length p) s = p)"

definition substring :: "string \<Rightarrow> nat \<Rightarrow> string" where
  "substring s n = drop n s"

definition lower_char :: "char \<Rightarrow> char" where
  "lower_char c =
     (let n = (of_char c :: nat)
      in if (65 \<le> n \<and> n \<le> 90) \<or> (192 \<le> n \<and> n \<le> 214) \<or> (216 \<le> n \<and> n \<le> 222)
         then char_of (n + 32) else c)"

definition toLowerCase :: "string \<Rightarrow> string" where
  "toLowerCase s = map lower_char s"

definition is_space :: "char \<Rightarrow> bool" where
  "is_space c =
     (let n = (of_char c :: nat) in (9 \<le> n \<and> n \<le> 13) \<or> n = 32 \<or> n = 160)"

definition trim :: "string \<Rightarrow> string" where
  "trim s = rev (dropWhile is_space (rev (dropWhile is_space s)))"

subsection \<open>The User model (models/User.js)\<close>

datatype AuthProvider = Email | Phone

record User =
  oid :: nat
  email :: "string option"
  phoneNumber :: "string option"
  passwordHash :: "string option"
  authProvider :: AuthProvider
  createdAt :: nat
  lastLogin :: nat
  updatedAt :: nat

text \<open>
  The schema's setters: \<^verbatim>\<open>email: {lowercase: true, trim: true}\<close> and
  \<^verbatim>\<open>phoneNumber: {trim: true}\<close>. Mongoose runs a path's setters when a document is
  built and when a query filter on that path is cast.
\<close>

definition schema_email :: "string \<Rightarrow> string" where
  "schema_email v = toLowerCase (trim v)"

definition schema_phoneNumber :: "string \<Rightarrow> string" where
  "schema_phoneNumber v = trim v"

text \<open>\<^verbatim>\<open>_id\<close>: a fresh ObjectId for each new document.\<close>

definition new_oid :: "User list \<Rightarrow> nat" where
  "new_oid docs = Suc (foldr (\<lambda>u m. max (oid u) m) docs 0)"

text \<open>
  \<^verbatim>\<open>new User({email, phoneNumber, passwordHash, authProvider})\<close>: setters applied,
  \<^verbatim>\<open>createdAt\<close> and \<^verbatim>\<open>lastLogin\<close> default to \<^verbatim>\<open>Date.now\<close>, and
  \<^verbatim>\<open>timestamps: true\<close> stamps \<^verbatim>\<open>updatedAt\<close>.
\<close>

definition new_User ::
  "User list \<Rightarrow> nat \<Rightarrow> string option \<Rightarrow> string option \<Rightarrow> string option \<Rightarrow> AuthProvider \<Rightarrow> User" where
  "new_User docs now em ph pw ap =
     \<lparr>oid = new_oid docs, email = map_option schema_email em,
      phoneNumber = map_option schema_phoneNumber ph, passwordHash = pw,
      authProvider = ap, createdAt = now, lastLogin = now, updatedAt = now\<rparr>"

text \<open>\<^verbatim>\<open>User.findOne({email})\<close> and \<^verbatim>\<open>User.findOne({phoneNumber})\<close>.\<close>

definition findOne_email :: "User list \<Rightarrow> string \<Rightarrow> User option" where
  "findOne_email docs q = find (\<lambda>u. email u = Some (schema_email q)) docs"

definition findOne_phoneNumber :: "User list \<Rightarrow> string \<Rightarrow> User option" where
  "findOne_phoneNumber docs q = find (\<lambda>u. phoneNumber u = Some (schema_phoneNumber q)) docs"

text \<open>
  The two sparse unique indexes: a document that has the field may not repeat the value
  of another document. \<^verbatim>\<open>save()\<close> of a new document throws on a violation.
\<close>

definition unique_violation :: "User list \<Rightarrow> User \<Rightarrow> bool" where
  "unique_violation docs d =
     ((email d \<noteq> None \<and> email d \<in> set (map email docs)) \<or>
      (phoneNumber d \<noteq> None \<and> phoneNumber d \<in> set (map phoneNumber docs)))"

definition save_new :: "User list \<Rightarrow> User \<Rightarrow> User list option" where
  "save_new docs d = (if unique_violation docs d then None else Some (docs @ [d]))"

text \<open>\<^verbatim>\<open>save()\<close> of a document that was read from the collection: written back by \<^verbatim>\<open>_id\<close>.\<close>

definition save_existing :: "User list \<Rightarrow> User \<Rightarrow> User list" where
  "save_existing docs d = map (\<lambda>u. if oid u = oid d then d else u) docs"

subsection \<open>Session tokens (jsonwebtoken) and provider assertions (firebase-admin)\<close>

datatype subject = Oid nat | Uid string

text \<open>
  The payload of a token, which is also the shape of \<^verbatim>\<open>req.user\<close>: the three keys the
  routes sign, and \<^verbatim>\<open>iat\<close>/\<^verbatim>\<open>exp\<close> (seconds), which jsonwebtoken adds.
\<close>

record claims =
  userId :: subject
  claim_email :: "string option"
  claim_phoneNumber :: "string option"
  claim_authProvider :: AuthProvider
  iat :: "nat option"
  expires :: "nat option"

text \<open>What \<^verbatim>\<open>admin.auth().verifyIdToken\<close> resolves to (the fields the middleware reads).\<close>

record DecodedIdToken =
  uid :: string
  phone_number :: "string option"

record env =
  isEmail :: "string \<Rightarrow> bool"
  normalizeEmail :: "string \<Rightarrow> string"
  bcrypt_hash :: "string \<Rightarrow> string \<Rightarrow> string"
  bcrypt_compare :: "string \<Rightarrow> string \<Rightarrow> bool"
  jws_encode :: "claims \<Rightarrow> string \<Rightarrow> string"
  jws_decode :: "string \<Rightarrow> string \<Rightarrow> claims option"
  verifyIdToken :: "string \<Rightarrow> DecodedIdToken option"
  env_JWT_SECRET :: "string option"

text \<open>\<^verbatim>\<open>process.env.JWT_SECRET || 'your-secret-key-change-in-production'\<close>\<close>

definition JWT_SECRET :: "env \<Rightarrow> string" where
  "JWT_SECRET E =
     (case env_JWT_SECRET E of
        None \<Rightarrow> ''your-secret-key-change-in-production''
      | Some s \<Rightarrow> if s = [] then ''your-secret-key-change-in-production'' else s)"

text \<open>\<^verbatim>\<open>'7d'\<close>, in seconds.\<close>

definition seven_days :: nat where
  "seven_days = 7 * 24 * 60 * 60"

text \<open>
  \<^verbatim>\<open>jwt.sign(payload, secret, {expiresIn})\<close>: jsonwebtoken stamps
  \<^verbatim>\<open>iat = floor(Date.now() / 1000)\<close> and \<^verbatim>\<open>exp = iat + expiresIn\<close>, then signs.
\<close>

definition jwt_sign :: "env \<Rightarrow> claims \<Rightarrow> string \<Rightarrow> nat \<Rightarrow> nat \<Rightarrow> string" where
  "jwt_sign E payload secret expiresIn now =
     jws_encode E (payload\<lparr>iat := Some (now div 1000),
                           expires := Some (now div 1000 + expiresIn)\<rparr>) secret"

datatype jwt_error = JsonWebTokenError | TokenExpiredError

text \<open>
  \<^verbatim>\<open>jwt.verify(token, secret)\<close>: a token that does not parse or whose signature does not
  match throws \<^verbatim>\<open>JsonWebTokenError\<close>; then, with
  \<^verbatim>\<open>clockTimestamp = floor(Date.now() / 1000)\<close>, jsonwebtoken throws
  \<^verbatim>\<open>TokenExpiredError\<close> when \<^verbatim>\<open>clockTimestamp >= payload.exp\<close>.
\<close>

definition jwt_verify :: "env \<Rightarrow> string \<Rightarrow> string \<Rightarrow> nat \<Rightarrow> jwt_error + claims" where
  "jwt_verify E token secret now =
     (case jws_decode E token secret of
        None \<Rightarrow> Inl JsonWebTokenError
      | Some c \<Rightarrow>
          (case expires c of
             None \<Rightarrow> Inr c
           | Some e \<Rightarrow> if now div 1000 \<ge> e then Inl TokenExpiredError else Inr c))"

subsection \<open>The auth gate (middleware/auth.js)\<close>

datatype gate = Next claims | Reject nat string

text \<open>
  \<open>header\<close> is \<^verbatim>\<open>req.headers.authorization\<close> (\<open>None\<close> when the header is absent);
  \<open>Next p\<close> is \<^verbatim>\<open>req.user = p; return next()\<close>, and \<open>Reject s m\<close> is
  \<^verbatim>\<open>res.status(s).json({error: m})\<close>. The outer \<^verbatim>\<open>catch\<close> (401
  \<^verbatim>\<open>Authentication failed\<close>) has no branch here: nothing outside the two inner
  \<^verbatim>\<open>try\<close> blocks throws on a header that is a string or absent.
\<close>

definition verifyToken :: "env \<Rightarrow> nat \<Rightarrow> string option \<Rightarrow> gate" where
  "verifyToken E now header =
     (case header of
        None \<Rightarrow> Reject 401 ''No token provided''
      | Some authHeader \<Rightarrow>
          if authHeader = [] \<or> \<not> startsWith authHeader ''Bearer ''
          then Reject 401 ''No token provided''
          else
            (let token = substring authHeader 7 in
             case jwt_verify E token (JWT_SECRET E) now of
               Inr decoded \<Rightarrow> Next decoded
             | Inl jwtError \<Rightarrow>
                 (case verifyIdToken E token of
                    Some decodedToken \<Rightarrow>
                      Next \<lparr>userId = Uid (uid decodedToken), claim_email = None,
                            claim_phoneNumber = phone_number decodedToken,
                            claim_authProvider = Phone, iat = None, expires = None\<rparr>
                  | None \<Rightarrow> Reject 401 ''Invalid token'')))"

subsection \<open>The account routes (/register, /login, /phone-login)\<close>

datatype body =
    ErrorBody string
  | RegisteredBody string bool
  | LoginBody string nat "string option" AuthProvider
  | PhoneLoginBody string nat "string option" AuthProvider

text \<open>
  \<open>ErrorBody e\<close> is \<^verbatim>\<open>{error: e}\<close>; \<open>RegisteredBody m s\<close> is \<^verbatim>\<open>{message: m, success: s}\<close>;
  \<open>LoginBody t i e a\<close> is \<^verbatim>\<open>{token: t, user: {id: i, email: e, authProvider: a}}\<close>;
  \<open>PhoneLoginBody t i p a\<close> is \<^verbatim>\<open>{token: t, user: {id: i, phoneNumber: p, authProvider: a}}\<close>.
\<close>

record response =
  status :: nat
  body :: body

text \<open>
  \<^verbatim>\<open>POST /register\<close> with \<^verbatim>\<open>body('email').isEmail().normalizeEmail()\<close> and
  \<^verbatim>\<open>body('password').isLength({min: 6})\<close>. \<open>salt\<close> is what \<^verbatim>\<open>bcrypt.genSalt(10)\<close>
  draws. An absent body field validates as the empty string.
\<close>

definition register ::
  "env \<Rightarrow> string \<Rightarrow> nat \<Rightarrow> User list \<Rightarrow> string \<Rightarrow> string \<Rightarrow> response \<times> User list" where
  "register E salt now docs email_in password =
     (if \<not> isEmail E email_in \<or> length password < 6
      then (\<lparr>status = 400, body = ErrorBody ''Invalid email or password format''\<rparr>, docs)
      else
        (let em = normalizeEmail E email_in in
         case findOne_email docs em of
           Some existingUser \<Rightarrow>
             (\<lparr>status = 400, body = ErrorBody ''User already registered. Please login.''\<rparr>, docs)
         | None \<Rightarrow>
             (let hashed = bcrypt_hash E password salt;
                  user = new_User docs now (Some em) None (Some hashed) Email
              in case save_new docs user of
                   None \<Rightarrow> (\<lparr>status = 500, body = ErrorBody ''Registration failed''\<rparr>, docs)
                 | Some docs' \<Rightarrow>
                     (\<lparr>status = 201, body = RegisteredBody ''Registration successful'' True\<rparr>,
                      docs'))))"

text \<open>
  \<^verbatim>\<open>POST /login\<close> with \<^verbatim>\<open>body('email').isEmail().normalizeEmail()\<close> and
  \<^verbatim>\<open>body('password').notEmpty()\<close>. \<^verbatim>\<open>bcrypt.compare\<close> throws on a document without
  \<^verbatim>\<open>passwordHash\<close>, which the route's \<^verbatim>\<open>catch\<close> turns into 500.
\<close>

definition login ::
  "env \<Rightarrow> nat \<Rightarrow> User list \<Rightarrow> string \<Rightarrow> string \<Rightarrow> response \<times> User list" where
  "login E now docs email_in password =
     (if \<not> isEmail E email_in \<or> password = []
      then (\<lparr>status = 400, body = ErrorBody ''Invalid email or password format''\<rparr>, docs)
      else
        (let em = normalizeEmail E email_in in
         case findOne_email docs em of
           None \<Rightarrow>
             (\<lparr>status = 404, body = ErrorBody ''User not registered. Please register first.''\<rparr>,
              docs)
         | Some found \<Rightarrow>
             (case passwordHash found of
                None \<Rightarrow> (\<lparr>status = 500, body = ErrorBody ''Login failed''\<rparr>, docs)
              | Some h \<Rightarrow>
                  if \<not> bcrypt_compare E password h
                  then (\<lparr>status = 401, body = ErrorBody ''Incorrect password.''\<rparr>, docs)
                  else
                    (let user = found\<lparr>lastLogin := now, updatedAt := now\<rparr>;
                         docs' = save_existing docs user;
                         token = jwt_sign E
                           \<lparr>userId = Oid (oid user), claim_email = email user,
                            claim_phoneNumber = None, claim_authProvider = Email,
                            iat = None, expires = None\<rparr>
                           (JWT_SECRET E) seven_days now
                     in (\<lparr>status = 200,
                          body = LoginBody token (oid user) (email user) (authProvider user)\<rparr>,
                         docs')))))"

text \<open>
  \<^verbatim>\<open>POST /phone-login\<close>. A body field is \<open>None\<close> when absent; \<^verbatim>\<open>!v\<close> holds of an absent
  field and of the empty string.
\<close>

definition falsy :: "string option \<Rightarrow> bool" where
  "falsy v = (v = None \<or> v = Some [])"

definition phone_login ::
  "env \<Rightarrow> nat \<Rightarrow> User list \<Rightarrow> string option \<Rightarrow> string option \<Rightarrow> response \<times> User list" where
  "phone_login E now docs idToken phoneNumber_in =
     (if falsy idToken \<or> falsy phoneNumber_in
      then (\<lparr>status = 400, body = ErrorBody ''Missing required fields''\<rparr>, docs)
      else
        (let ph = (case phoneNumber_in of Some p \<Rightarrow> p | None \<Rightarrow> []);
             respond = (\<lambda>user docs'.
               (\<lparr>status = 200,
                 body = PhoneLoginBody
                   (jwt_sign E
                      \<lparr>userId = Oid (oid user), claim_email = None,
                       claim_phoneNumber = phoneNumber user, claim_authProvider = Phone,
                       iat = None, expires = None\<rparr>
                      (JWT_SECRET E) seven_days now)
                   (oid user) (phoneNumber user) (authProvider user)\<rparr>,
                docs'))
         in case findOne_phoneNumber docs ph of
              None \<Rightarrow>
                (let user = new_User docs now None (Some ph) None Phone
                 in case save_new docs user of
                      None \<Rightarrow>
                        (\<lparr>status = 500, body = ErrorBody ''Phone authentication failed''\<rparr>, docs)
                    | Some docs' \<Rightarrow> respond user docs')
            | Some found \<Rightarrow>
                (let user = found\<lparr>lastLogin := now, updatedAt := now\<rparr>
                 in respond user (save_existing docs user))))"

subsection \<open>Runs of the account routes\<close>

datatype request =
    Register string string string
  | Login string string
  | PhoneLogin "string option" "string option"

text \<open>\<open>Register salt email password\<close>, \<open>Login email password\<close>, \<open>PhoneLogin idToken phoneNumber\<close>.\<close>

fun handle :: "env \<Rightarrow> nat \<Rightarrow> User list \<Rightarrow> request \<Rightarrow> response \<times> User list" where
  "handle E now docs (Register salt e p) = register E salt now docs e p"
| "handle E now docs (Login e p) = login E now docs e p"
| "handle E now docs (PhoneLogin t p) = phone_login E now docs t p"

text \<open>The collections the three routes can produce, starting from the empty one.\<close>

inductive reachable :: "User list \<Rightarrow> bool" where
  reachable_empty: "reachable []"
| reachable_step: "reachable docs \<Longrightarrow> reachable (snd (handle E now docs req))"

text \<open>The credential invariant of one identity.\<close>

definition cred_ok :: "User \<Rightarrow> bool" where
  "cred_ok u = (case authProvider u of
                  Phone \<Rightarrow> passwordHash u = None
                | Email \<Rightarrow> passwordHash u \<noteq> None)"

text \<open>The invariant of the collection: every identity's, and no \<^verbatim>\<open>_id\<close> twice.\<close>

definition store_ok :: "User list \<Rightarrow> bool" where
  "store_ok docs = (list_all cred_ok docs \<and> distinct (map oid docs))"

subsection \<open>A stand-in environment for concrete runs\<close>

text \<open>
  Concrete runs need concrete packages. \<open>validator_isEmail\<close> follows validator.js's
  \<^verbatim>\<open>isEmail\<close> with its default options on ASCII addresses with an unquoted local part:
  the text after the last \<^verbatim>\<open>@\<close> is a domain name of at least two labels whose last
  label is alphabetic or a punycode label (\<^verbatim>\<open>xn\<close> and at least two more characters),
  the text before it is at most 64 characters of dot-separated, non-empty atoms. It
  accepts no quoted local part and no character beyond ASCII, and it does not trim.
\<close>

fun split_on :: "char \<Rightarrow> string \<Rightarrow> string list" where
  "split_on d [] = [[]]"
| "split_on d (c # cs) =
     (if c = d then [] # split_on d cs
      else (case split_on d cs of [] \<Rightarrow> [[c]] | p # ps \<Rightarrow> (c # p) # ps))"

definition is_alpha :: "char \<Rightarrow> bool" where
  "is_alpha c = (let n = (of_char c :: nat) in (65 \<le> n \<and> n \<le> 90) \<or> (97 \<le> n \<and> n \<le> 122))"

definition is_digit :: "char \<Rightarrow> bool" where
  "is_digit c = (let n = (of_char c :: nat) in 48 \<le> n \<and> n \<le> 57)"

definition is_atom_char :: "char \<Rightarrow> bool" where
  "is_atom_char c =
     (is_alpha c \<or> is_digit c \<or>
      (of_char c :: nat) \<in> set [33, 35, 36, 37, 38, 39, 42, 43, 45, 47, 61, 63, 94, 95, 96,
                                 123, 124, 125, 126])"

definition is_label :: "string \<Rightarrow> bool" where
  "is_label l =
     (l \<noteq> [] \<and> length l \<le> 63 \<and>
      list_all (\<lambda>c. is_alpha c \<or> is_digit c \<or> c = CHR ''-'') l \<and>
      hd l \<noteq> CHR ''-'' \<and> last l \<noteq> CHR ''-'')"

definition validator_isFQDN :: "string \<Rightarrow> bool" where
  "validator_isFQDN d =
     (let parts = split_on (CHR ''.'') d; tld = last parts
      in 2 \<le> length parts \<and> list_all is_label parts \<and>
         ((2 \<le> length tld \<and> list_all is_alpha tld) \<or>
          (toLowerCase (take 2 tld) = ''xn'' \<and> 2 \<le> length (drop 2 tld))))"

definition validator_isEmail :: "string \<Rightarrow> bool" where
  "validator_isEmail s =
     (let parts = split_on (CHR ''@'') s;
          domain = last parts;
          user = take (length s - length domain - 1) s
      in 2 \<le> length parts \<and> length user \<le> 64 \<and> length domain \<le> 254 \<and>
         validator_isFQDN domain \<and>
         list_all (\<lambda>a. a \<noteq> [] \<and> list_all is_atom_char a) (split_on (CHR ''.'') user))"

text \<open>
  \<^verbatim>\<open>normalizeEmail\<close> with its default options lowercases the address; its rewriting of
  the local part for a few mail providers (gmail, outlook, yahoo, icloud, yandex) is
  left out, so the stand-in is used on other domains only.
\<close>

definition validator_normalizeEmail :: "string \<Rightarrow> string" where
  "validator_normalizeEmail s = toLowerCase s"

text \<open>A stand-in for the password hash: the salt (four characters) before the password.\<close>

definition stub_hash :: "string \<Rightarrow> string \<Rightarrow> string" where
  "stub_hash password salt = take 4 (salt @ ''0000'') @ password"

definition stub_compare :: "string \<Rightarrow> string \<Rightarrow> bool" where
  "stub_compare password h = (drop 4 h = password)"

text \<open>
  A stand-in for the signature: one session token, \<^verbatim>\<open>alice.jwt\<close>, that carries
  \<open>alice_claims\<close> under the default secret, and one provider assertion,
  \<^verbatim>\<open>firebase.idtoken\<close>.
\<close>

definition alice_claims :: claims where
  "alice_claims =
     \<lparr>userId = Oid 1, claim_email = Some ''alice@example.com'', claim_phoneNumber = None,
      claim_authProvider = Email, iat = Some 0, expires = Some 604800\<rparr>"

definition stub_jws_encode :: "claims \<Rightarrow> string \<Rightarrow> string" where
  "stub_jws_encode c k =
     (if c = alice_claims \<and> k = ''your-secret-key-change-in-production''
      then ''alice.jwt'' else ''opaque.jwt'')"

definition stub_jws_decode :: "string \<Rightarrow> string \<Rightarrow> claims option" where
  "stub_jws_decode t k =
     (if t = ''alice.jwt'' \<and> k = ''your-secret-key-change-in-production''
      then Some alice_claims else None)"

definition stub_verifyIdToken :: "string \<Rightarrow> DecodedIdToken option" where
  "stub_verifyIdToken t =
     (if t = ''firebase.idtoken''
      then Some \<lparr>uid = ''fb-uid-1'', phone_number = Some ''+15550100''\<rparr> else None)"

definition stub_env :: env where
  "stub_env =
     \<lparr>isEmail = validator_isEmail, normalizeEmail = validator_normalizeEmail,
      bcrypt_hash = stub_hash, bcrypt_compare = stub_compare,
      jws_encode = stub_jws_encode, jws_decode = stub_jws_decode,
      verifyIdToken = stub_verifyIdToken, env_JWT_SECRET = None\<rparr>"

text \<open>The collection after Alice registered at time 0.\<close>

definition alice :: User where
  "alice =
     \<lparr>oid = 1, email = Some ''alice@example.com'', phoneNumber = None,
      passwordHash = Some ''salthunter22'', authProvider = Email,
      createdAt = 0, lastLogin = 0, updatedAt = 0\<rparr>"

text \<open>The identity a first phone login at time 500 adds to it.\<close>

definition bob :: User where
  "bob =
     \<lparr>oid = 2, email = None, phoneNumber = Some ''+15550100'',
      passwordHash = None, authProvider = Phone,
      createdAt = 500, lastLogin = 500, updatedAt = 500\<rparr>"

section \<open>Properties\<close>

subsection \<open>Facts about the stand-in environment\<close>

lemma stub_secret: "JWT_SECRET stub_env = ''your-secret-key-change-in-production''"
  by (simp add: JWT_SECRET_def stub_env_def)

lemma stub_verify_alice:
  "jwt_verify stub_env ''alice.jwt'' ''your-secret-key-change-in-production'' now =
     (if now div 1000 \<ge> 604800 then Inl TokenExpiredError else Inr alice_claims)"
  by (simp add: jwt_verify_def stub_env_def stub_jws_decode_def alice_claims_def)

lemma stub_verify_other:
  "t \<noteq> ''alice.jwt'' \<Longrightarrow> jwt_verify stub_env t k now = Inl JsonWebTokenError"
  by (simp add: jwt_verify_def stub_env_def stub_jws_decode_def)

subsection \<open>The collection\<close>


lemma findOne_email_None:
  "findOne_email docs q = None \<longleftrightarrow> Some (schema_email q) \<notin> set (map email docs)"
  by (force simp: findOne_email_def find_None_iff image_iff)

lemma findOne_phoneNumber_None:
  "findOne_phoneNumber docs q = None \<longleftrightarrow> Some (schema_phoneNumber q) \<notin> set (map phoneNumber docs)"
  by (force simp: findOne_phoneNumber_def find_None_iff image_iff)

lemma find_append_new: "find P xs = None \<Longrightarrow> P x \<Longrightarrow> find P (xs @ [x]) = Some x"
  by (induction xs) (auto split: if_splits)

lemma find_Some_mem: "find P xs = Some x \<Longrightarrow> x \<in> set xs \<and> P x"
  by (induction xs) (auto split: if_splits)

lemma save_new_email:
  assumes "findOne_email docs em = None"
  shows "save_new docs (new_User docs now (Some em) None pw ap)
           = Some (docs @ [new_User docs now (Some em) None pw ap])"
  using assms by (simp add: save_new_def unique_violation_def new_User_def findOne_email_None)

lemma save_new_phoneNumber:
  assumes "findOne_phoneNumber docs ph = None"
  shows "save_new docs (new_User docs now None (Some ph) pw ap)
           = Some (docs @ [new_User docs now None (Some ph) pw ap])"
  using assms by (simp add: save_new_def unique_violation_def new_User_def findOne_phoneNumber_None)

lemma register_invalid:
  "\<not> isEmail E e \<or> length p < 6 \<Longrightarrow>
   register E salt now docs e p =
     (\<lparr>status = 400, body = ErrorBody ''Invalid email or password format''\<rparr>, docs)"
  by (auto simp: register_def)

lemma register_fresh:
  assumes "isEmail E e" "6 \<le> length p" "findOne_email docs (normalizeEmail E e) = None"
  shows "register E salt now docs e p =
     (\<lparr>status = 201, body = RegisteredBody ''Registration successful'' True\<rparr>,
      docs @ [new_User docs now (Some (normalizeEmail E e)) None (Some (bcrypt_hash E p salt)) Email])"
  using assms by (simp add: register_def Let_def save_new_email)

lemma register_taken:
  assumes "isEmail E e" "6 \<le> length p" "findOne_email docs (normalizeEmail E e) = Some u"
  shows "register E salt now docs e p =
     (\<lparr>status = 400, body = ErrorBody ''User already registered. Please login.''\<rparr>, docs)"
  using assms by (simp add: register_def Let_def)

lemma findOne_email_created:
  assumes "findOne_email docs em = None" "schema_email em' = schema_email em"
  shows "findOne_email (docs @ [new_User docs now (Some em) None pw ap]) em'
           = Some (new_User docs now (Some em) None pw ap)"
  using assms unfolding findOne_email_def
  by (intro find_append_new) (simp_all add: new_User_def)

subsection \<open>The auth gate\<close>

lemma bearer_token:
  "startsWith (''Bearer '' @ token) ''Bearer '' \<and> substring (''Bearer '' @ token) 7 = token"
  by (simp add: startsWith_def substring_def)

text \<open>
  On a request that carries a bearer credential, the gate is the two-step cascade: the
  credential is tried as a session token first.
\<close>

lemma verifyToken_bearer:
  "verifyToken E now (Some (''Bearer '' @ token)) =
      (case jwt_verify E token (JWT_SECRET E) now of
         Inr decoded \<Rightarrow> Next decoded
       | Inl jwtError \<Rightarrow>
           (case verifyIdToken E token of
              Some d \<Rightarrow> Next \<lparr>userId = Uid (uid d), claim_email = None,
                        claim_phoneNumber = phone_number d, claim_authProvider = Phone,
                        iat = None, expires = None\<rparr>
            | None \<Rightarrow> Reject 401 ''Invalid token''))"
  unfolding verifyToken_def using bearer_token [of token] by simp

text \<open>
  Claim C1. On a request with a bearer credential the gate first verifies the credential
  as a session token signed with the server secret and, when that succeeds, accepts with
  the token's claims as principal, whatever the identity provider would say. Only when
  that verification throws does it ask the identity provider; when the provider accepts,
  the principal is built from the assertion's \<open>uid\<close> and \<open>phone_number\<close> with the auth
  provider fixed to phone. The error of the first step is not reported: whatever it was,
  the outcome is that of the second step. The request is rejected exactly when both steps
  fail, and then with 401 and the one message \<^verbatim>\<open>Invalid token\<close>.
\<close>

theorem verifyToken_order:
  assumes hdr: "header = Some (''Bearer '' @ token)"
  shows "(\<forall>decoded. jwt_verify E token (JWT_SECRET E) now = Inr decoded
            \<longrightarrow> verifyToken E now header = Next decoded)
       \<and> (\<forall>jwtError d. jwt_verify E token (JWT_SECRET E) now = Inl jwtError
              \<and> verifyIdToken E token = Some d
            \<longrightarrow> verifyToken E now header =
                  Next \<lparr>userId = Uid (uid d), claim_email = None,
                        claim_phoneNumber = phone_number d, claim_authProvider = Phone,
                        iat = None, expires = None\<rparr>)
       \<and> (\<forall>jwtError. jwt_verify E token (JWT_SECRET E) now = Inl jwtError
              \<and> verifyIdToken E token = None
            \<longrightarrow> verifyToken E now header = Reject 401 ''Invalid token'')
       \<and> ((\<exists>code msg. verifyToken E now header = Reject code msg)
            \<longleftrightarrow> (\<exists>jwtError. jwt_verify E token (JWT_SECRET E) now = Inl jwtError)
                 \<and> verifyIdToken E token = None)"
  unfolding hdr verifyToken_bearer
  by (cases "jwt_verify E token (JWT_SECRET E) now"; cases "verifyIdToken E token"; simp)

theorem verifyToken_order_witness:
  "verifyToken stub_env 1000 (Some ''Bearer alice.jwt'') = Next alice_claims
   \<and> verifyToken stub_env 1000 (Some ''Bearer firebase.idtoken'') =
       Next \<lparr>userId = Uid ''fb-uid-1'', claim_email = None,
             claim_phoneNumber = Some ''+15550100'', claim_authProvider = Phone,
             iat = None, expires = None\<rparr>
   \<and> verifyToken stub_env 1000 (Some ''Bearer garbage'') = Reject 401 ''Invalid token''"
proof -
  have a: "jwt_verify stub_env ''alice.jwt'' (JWT_SECRET stub_env) 1000 = Inr alice_claims"
    by (simp add: stub_secret stub_verify_alice)
  have b: "jwt_verify stub_env ''firebase.idtoken'' (JWT_SECRET stub_env) 1000
             = Inl JsonWebTokenError"
    by (simp add: stub_verify_other)
  have b': "verifyIdToken stub_env ''firebase.idtoken''
             = Some \<lparr>uid = ''fb-uid-1'', phone_number = Some ''+15550100''\<rparr>"
    by (simp add: stub_env_def stub_verifyIdToken_def)
  have c: "jwt_verify stub_env ''garbage'' (JWT_SECRET stub_env) 1000 = Inl JsonWebTokenError"
    by (simp add: stub_verify_other)
  have c': "verifyIdToken stub_env ''garbage'' = None"
    by (simp add: stub_env_def stub_verifyIdToken_def)
  show ?thesis
    using verifyToken_order [of "Some ''Bearer alice.jwt''" "''alice.jwt''" stub_env 1000]
          verifyToken_order [of "Some ''Bearer firebase.idtoken''" "''firebase.idtoken''"
                                stub_env 1000]
          verifyToken_order [of "Some ''Bearer garbage''" "''garbage''" stub_env 1000]
          a b b' c c'
    by simp
qed

subsection \<open>Registration\<close>

lemma stub_isEmail_alice: "isEmail stub_env ''Alice@Example.com''"
  unfolding stub_env_def by (simp, code_simp)

lemma stub_isEmail_malformed: "\<not> isEmail stub_env ''not-an-email''"
  unfolding stub_env_def by (simp, code_simp)

lemma stub_normalize_alice: "normalizeEmail stub_env ''Alice@Example.com'' = ''alice@example.com''"
  unfolding stub_env_def by (simp, code_simp)

lemma schema_email_alice: "schema_email ''alice@example.com'' = ''alice@example.com''"
  by code_simp

lemma new_oid_Nil: "new_oid [] = 1"
  by (simp add: new_oid_def)

text \<open>
  Claim C5. For a well-formed email and a password of at least six characters, when no
  identity has the email yet: Register answers 201, appends exactly one identity, which
  carries the hash of the password and the auth provider email, and the answer holds no
  session token. Any later Register with the same email answers 400 with the
  already-registered message and leaves the collection as it is. A malformed email or a
  password shorter than six characters is answered 400 with the collection unchanged,
  whatever the hashing function and the salt are.
\<close>

theorem register_once:
  assumes valid: "isEmail E e" "6 \<le> length p"
      and fresh: "findOne_email docs (normalizeEmail E e) = None"
  shows "\<exists>u. register E salt now docs e p =
             (\<lparr>status = 201, body = RegisteredBody ''Registration successful'' True\<rparr>,
              docs @ [u])
           \<and> u = \<lparr>oid = new_oid docs, email = Some (schema_email (normalizeEmail E e)),
                  phoneNumber = None, passwordHash = Some (bcrypt_hash E p salt),
                  authProvider = Email, createdAt = now, lastLogin = now, updatedAt = now\<rparr>
           \<and> (\<forall>salt2 now2 p2. 6 \<le> length p2 \<longrightarrow>
                 register E salt2 now2 (docs @ [u]) e p2 =
                   (\<lparr>status = 400,
                     body = ErrorBody ''User already registered. Please login.''\<rparr>,
                    docs @ [u]))
           \<and> (\<forall>e3 p3 h salt3. \<not> isEmail E e3 \<or> length p3 < 6 \<longrightarrow>
                 register (E\<lparr>bcrypt_hash := h\<rparr>) salt3 now docs e3 p3 =
                   (\<lparr>status = 400, body = ErrorBody ''Invalid email or password format''\<rparr>,
                    docs))"
proof -
  let ?u = "new_User docs now (Some (normalizeEmail E e)) None (Some (bcrypt_hash E p salt)) Email"
  have first: "register E salt now docs e p =
      (\<lparr>status = 201, body = RegisteredBody ''Registration successful'' True\<rparr>, docs @ [?u])"
    using valid fresh by (rule register_fresh)
  have shape: "?u = \<lparr>oid = new_oid docs, email = Some (schema_email (normalizeEmail E e)),
                  phoneNumber = None, passwordHash = Some (bcrypt_hash E p salt),
                  authProvider = Email, createdAt = now, lastLogin = now, updatedAt = now\<rparr>"
    by (simp add: new_User_def)
  have found: "findOne_email (docs @ [?u]) (normalizeEmail E e) = Some ?u"
    using fresh by (simp add: findOne_email_created)
  have second: "register E salt2 now2 (docs @ [?u]) e p2 =
      (\<lparr>status = 400, body = ErrorBody ''User already registered. Please login.''\<rparr>, docs @ [?u])"
    if "6 \<le> length p2" for salt2 now2 p2
    using valid(1) that found by (rule register_taken)
  have invalid: "register (E\<lparr>bcrypt_hash := h\<rparr>) salt3 now docs e3 p3 =
      (\<lparr>status = 400, body = ErrorBody ''Invalid email or password format''\<rparr>, docs)"
    if "\<not> isEmail E e3 \<or> length p3 < 6" for e3 p3 h salt3
    using that by (intro register_invalid) simp
  show ?thesis
    using first shape second invalid by (intro exI [of _ ?u]) (simp only: simp_thms, blast)
qed

theorem register_once_witness:
  "register stub_env ''salt'' 0 [] ''Alice@Example.com'' ''hunter22'' =
     (\<lparr>status = 201, body = RegisteredBody ''Registration successful'' True\<rparr>, [alice])
   \<and> register stub_env ''pepr'' 7 [alice] ''Alice@Example.com'' ''hunter23'' =
       (\<lparr>status = 400, body = ErrorBody ''User already registered. Please login.''\<rparr>, [alice])
   \<and> register stub_env ''salt'' 0 [] ''not-an-email'' ''hunter22'' =
       (\<lparr>status = 400, body = ErrorBody ''Invalid email or password format''\<rparr>, [])"
proof -
  have fresh: "findOne_email [] (normalizeEmail stub_env ''Alice@Example.com'') = None"
    by (simp add: findOne_email_def)
  have hashed: "bcrypt_hash stub_env ''hunter22'' ''salt'' = ''salthunter22''"
    by (simp add: stub_env_def stub_hash_def)
  have same: "bcrypt_hash (stub_env\<lparr>bcrypt_hash := stub_hash\<rparr>) = bcrypt_hash stub_env"
    by (simp add: stub_env_def)
  have env: "stub_env\<lparr>bcrypt_hash := stub_hash\<rparr> = stub_env"
    by (simp add: stub_env_def)
  from register_once [of stub_env "''Alice@Example.com''" "''hunter22''" "[]" "''salt''" 0,
      OF stub_isEmail_alice _ fresh]
  obtain u where
    first: "register stub_env ''salt'' 0 [] ''Alice@Example.com'' ''hunter22'' =
       (\<lparr>status = 201, body = RegisteredBody ''Registration successful'' True\<rparr>, [] @ [u])"
    and shape: "u = \<lparr>oid = new_oid [],
       email = Some (schema_email (normalizeEmail stub_env ''Alice@Example.com'')),
       phoneNumber = None, passwordHash = Some (bcrypt_hash stub_env ''hunter22'' ''salt''),
       authProvider = Email, createdAt = 0, lastLogin = 0, updatedAt = 0\<rparr>"
    and second: "\<And>salt2 now2 p2. 6 \<le> length p2 \<Longrightarrow>
       register stub_env salt2 now2 ([] @ [u]) ''Alice@Example.com'' p2 =
         (\<lparr>status = 400, body = ErrorBody ''User already registered. Please login.''\<rparr>,
          [] @ [u])"
    and invalid: "\<And>e3 p3 h salt3. \<not> isEmail stub_env e3 \<or> length p3 < 6 \<Longrightarrow>
       register (stub_env\<lparr>bcrypt_hash := h\<rparr>) salt3 0 [] e3 p3 =
         (\<lparr>status = 400, body = ErrorBody ''Invalid email or password format''\<rparr>, [])"
    by auto
  have u: "u = alice"
    unfolding shape alice_def
    by (simp add: new_oid_Nil stub_normalize_alice schema_email_alice hashed)
  have third: "register stub_env ''salt'' 0 [] ''not-an-email'' ''hunter22'' =
       (\<lparr>status = 400, body = ErrorBody ''Invalid email or password format''\<rparr>, [])"
    using invalid [of "''not-an-email''" "''hunter22''" stub_hash "''salt''"]
          stub_isEmail_malformed
    by (simp add: env)
  show ?thesis
    using first second [of "''hunter23''" "''pepr''" 7] third by (simp add: u)
qed

subsection \<open>What a request can do to the collection\<close>


lemma oid_le_fold: "u \<in> set docs \<Longrightarrow> oid u \<le> foldr (\<lambda>u m. max (oid u) m) docs 0"
  by (induction docs) auto

lemma new_oid_fresh: "new_oid docs \<notin> set (map oid docs)"
proof
  assume "new_oid docs \<in> set (map oid docs)"
  then obtain u where "u \<in> set docs" "oid u = new_oid docs" by auto
  with oid_le_fold [of u docs] show False by (simp add: new_oid_def)
qed

lemma handle_effect:
  "snd (handle E now docs req) = docs
   \<or> (\<exists>em h. snd (handle E now docs req) = docs @ [new_User docs now (Some em) None (Some h) Email])
   \<or> (\<exists>ph. snd (handle E now docs req) = docs @ [new_User docs now None (Some ph) None Phone])
   \<or> (\<exists>u. u \<in> set docs \<and>
          snd (handle E now docs req) = save_existing docs (u\<lparr>lastLogin := now, updatedAt := now\<rparr>))"
proof (cases req)
  case (Register salt e p)
  then show ?thesis
    by (auto simp: register_def Let_def save_new_def split: option.splits)
next
  case (Login e p)
  then show ?thesis
    by (auto simp: login_def Let_def findOne_email_def dest!: find_Some_mem split: option.splits)
next
  case (PhoneLogin t p)
  then show ?thesis
    by (auto simp: phone_login_def Let_def save_new_def findOne_phoneNumber_def
             dest!: find_Some_mem split: option.splits)
qed


lemma save_existing_oids: "map oid (save_existing docs d) = map oid docs"
  by (induction docs) (auto simp: save_existing_def)

lemma save_existing_cred:
  "list_all cred_ok docs \<Longrightarrow> cred_ok d \<Longrightarrow> list_all cred_ok (save_existing docs d)"
  by (induction docs) (auto simp: save_existing_def)

lemma cred_ok_touch: "cred_ok (u\<lparr>lastLogin := a, updatedAt := b\<rparr>) = cred_ok u"
  by (simp add: cred_ok_def split: AuthProvider.splits)

lemma handle_store_ok:
  assumes "store_ok docs"
  shows "store_ok (snd (handle E now docs req))"
proof -
  have fresh: "new_oid docs \<notin> set (map oid docs)" by (rule new_oid_fresh)
  from handle_effect [of E now docs req] show ?thesis
  proof (elim disjE exE conjE)
    assume "snd (handle E now docs req) = docs"
    with assms show ?thesis by simp
  next
    fix em h
    assume "snd (handle E now docs req) = docs @ [new_User docs now (Some em) None (Some h) Email]"
    with assms fresh show ?thesis
      by (simp add: store_ok_def new_User_def cred_ok_def)
  next
    fix ph
    assume "snd (handle E now docs req) = docs @ [new_User docs now None (Some ph) None Phone]"
    with assms fresh show ?thesis
      by (simp add: store_ok_def new_User_def cred_ok_def)
  next
    fix u
    assume u: "u \<in> set docs"
      and eq: "snd (handle E now docs req) = save_existing docs (u\<lparr>lastLogin := now, updatedAt := now\<rparr>)"
    from assms u have "cred_ok u" by (simp add: store_ok_def list_all_iff)
    with assms show ?thesis
      unfolding eq store_ok_def
      by (simp add: save_existing_oids save_existing_cred cred_ok_touch)
  qed
qed

lemma reachable_store_ok: "reachable docs \<Longrightarrow> store_ok docs"
proof (induction rule: reachable.induct)
  case reachable_empty
  show ?case by (simp add: store_ok_def)
next
  case (reachable_step docs E now req)
  then show ?case by (simp add: handle_store_ok)
qed

lemma distinct_oid_eq:
  "distinct (map oid docs) \<Longrightarrow> x \<in> set docs \<Longrightarrow> u \<in> set docs \<Longrightarrow> oid x = oid u \<Longrightarrow> x = u"
  by (meson distinct_map inj_onD)

lemma handle_keeps_credentials:
  assumes ok: "store_ok docs" and i: "i < length docs"
  shows "i < length (snd (handle E now docs req))
       \<and> oid (snd (handle E now docs req) ! i) = oid (docs ! i)
       \<and> authProvider (snd (handle E now docs req) ! i) = authProvider (docs ! i)
       \<and> passwordHash (snd (handle E now docs req) ! i) = passwordHash (docs ! i)
       \<and> email (snd (handle E now docs req) ! i) = email (docs ! i)
       \<and> phoneNumber (snd (handle E now docs req) ! i) = phoneNumber (docs ! i)"
proof -
  from handle_effect [of E now docs req] show ?thesis
  proof (elim disjE exE conjE)
    assume "snd (handle E now docs req) = docs"
    with i show ?thesis by simp
  next
    fix em h
    assume "snd (handle E now docs req) = docs @ [new_User docs now (Some em) None (Some h) Email]"
    with i show ?thesis by (simp add: nth_append)
  next
    fix ph
    assume "snd (handle E now docs req) = docs @ [new_User docs now None (Some ph) None Phone]"
    with i show ?thesis by (simp add: nth_append)
  next
    fix u
    assume u: "u \<in> set docs"
      and eq: "snd (handle E now docs req) = save_existing docs (u\<lparr>lastLogin := now, updatedAt := now\<rparr>)"
    have mem: "docs ! i \<in> set docs" using i by simp
    have same: "docs ! i = u" if "oid (docs ! i) = oid u"
      using ok mem u that unfolding store_ok_def by (blast intro: distinct_oid_eq)
    show ?thesis
      unfolding eq save_existing_def using i same by auto
  qed
qed

subsection \<open>Login\<close>


lemma login_invalid:
  "\<not> isEmail E e \<or> p = [] \<Longrightarrow>
   login E now docs e p =
     (\<lparr>status = 400, body = ErrorBody ''Invalid email or password format''\<rparr>, docs)"
  by (auto simp: login_def)

lemma login_found:
  assumes "isEmail E e" "p \<noteq> []" "findOne_email docs (normalizeEmail E e) = Some u"
          "passwordHash u = Some h"
  shows "login E now docs e p =
     (if \<not> bcrypt_compare E p h
      then (\<lparr>status = 401, body = ErrorBody ''Incorrect password.''\<rparr>, docs)
      else (\<lparr>status = 200,
             body = LoginBody
               (jwt_sign E \<lparr>userId = Oid (oid u), claim_email = email u,
                            claim_phoneNumber = None, claim_authProvider = Email,
                            iat = None, expires = None\<rparr> (JWT_SECRET E) seven_days now)
               (oid u) (email u) (authProvider u)\<rparr>,
            save_existing docs (u\<lparr>lastLogin := now, updatedAt := now\<rparr>)))"
  using assms by (simp add: login_def Let_def)

lemma stub_find_alice:
  "findOne_email [alice] (normalizeEmail stub_env ''Alice@Example.com'') = Some alice"
  by (simp add: stub_normalize_alice findOne_email_def schema_email_alice alice_def)

text \<open>
  Claim C4, as the code has it. The route validates first: a request whose email is
  malformed or whose password is empty is answered 400 before any lookup. For a request
  that passes validation, Login answers 404 when no identity has the email, and 401 when
  the identity's stored hash does not match the password; in both cases the collection is
  returned as it was (so \<open>lastLogin\<close> is not touched) and the answer is an error body
  without a token.
\<close>

theorem login_failures:
  assumes valid: "isEmail E e" "p \<noteq> []"
  shows "(findOne_email docs (normalizeEmail E e) = None \<longrightarrow>
            login E now docs e p =
              (\<lparr>status = 404,
                body = ErrorBody ''User not registered. Please register first.''\<rparr>, docs))
       \<and> (\<forall>u h. findOne_email docs (normalizeEmail E e) = Some u \<and> passwordHash u = Some h
                 \<and> \<not> bcrypt_compare E p h \<longrightarrow>
            login E now docs e p =
              (\<lparr>status = 401, body = ErrorBody ''Incorrect password.''\<rparr>, docs))"
proof (intro conjI allI impI)
  assume "findOne_email docs (normalizeEmail E e) = None"
  with valid show "login E now docs e p =
      (\<lparr>status = 404, body = ErrorBody ''User not registered. Please register first.''\<rparr>, docs)"
    by (simp add: login_def Let_def)
next
  fix u h
  assume "findOne_email docs (normalizeEmail E e) = Some u \<and> passwordHash u = Some h
            \<and> \<not> bcrypt_compare E p h"
  with valid show "login E now docs e p =
      (\<lparr>status = 401, body = ErrorBody ''Incorrect password.''\<rparr>, docs)"
    by (simp add: login_found)
qed

theorem login_failures_witness:
  "login stub_env 500 [] ''Alice@Example.com'' ''hunter22'' =
     (\<lparr>status = 404, body = ErrorBody ''User not registered. Please register first.''\<rparr>, [])
   \<and> login stub_env 500 [alice] ''Alice@Example.com'' ''wrong-password'' =
     (\<lparr>status = 401, body = ErrorBody ''Incorrect password.''\<rparr>, [alice])"
proof -
  have none: "findOne_email [] (normalizeEmail stub_env ''Alice@Example.com'') = None"
    by (simp add: findOne_email_def)
  have h: "passwordHash alice = Some ''salthunter22''"
    by (simp add: alice_def)
  have wrong: "\<not> bcrypt_compare stub_env ''wrong-password'' ''salthunter22''"
    by (simp add: stub_env_def stub_compare_def)
  show ?thesis
    using login_failures [of stub_env "''Alice@Example.com''" "''hunter22''" "[]" 500]
          login_failures [of stub_env "''Alice@Example.com''" "''wrong-password''" "[alice]" 500]
          stub_isEmail_alice none stub_find_alice h wrong
    by simp
qed

text \<open>
  Without the validation gate the claim fails: no identity has the email
  \<^verbatim>\<open>not-an-email\<close>, yet the answer is 400 and not 404; and an empty password does not
  match Alice's hash, yet the answer is 400 and not 401.
\<close>

theorem login_unvalidated_counterexample:
  "findOne_email [] (normalizeEmail stub_env ''not-an-email'') = None
   \<and> login stub_env 500 [] ''not-an-email'' ''hunter22'' =
       (\<lparr>status = 400, body = ErrorBody ''Invalid email or password format''\<rparr>, [])
   \<and> findOne_email [alice] (normalizeEmail stub_env ''Alice@Example.com'') = Some alice
   \<and> passwordHash alice = Some ''salthunter22''
   \<and> \<not> bcrypt_compare stub_env [] ''salthunter22''
   \<and> login stub_env 500 [alice] ''Alice@Example.com'' [] =
       (\<lparr>status = 400, body = ErrorBody ''Invalid email or password format''\<rparr>, [alice])"
proof -
  have "\<not> bcrypt_compare stub_env [] ''salthunter22''"
    by (simp add: stub_env_def stub_compare_def)
  moreover have "passwordHash alice = Some ''salthunter22''"
    by (simp add: alice_def)
  moreover have "findOne_email [] (normalizeEmail stub_env ''not-an-email'') = None"
    by (simp add: findOne_email_def)
  ultimately show ?thesis
    using stub_isEmail_malformed stub_find_alice
    by (simp add: login_invalid)
qed

subsection \<open>The credential invariant\<close>

lemma stub_hash_alice: "bcrypt_hash stub_env ''hunter22'' ''salt'' = ''salthunter22''"
  by (simp add: stub_env_def stub_hash_def)

lemma stub_register_alice:
  "register stub_env ''salt'' 0 [] ''Alice@Example.com'' ''hunter22'' =
     (\<lparr>status = 201, body = RegisteredBody ''Registration successful'' True\<rparr>, [alice])"
proof -
  have "findOne_email [] (normalizeEmail stub_env ''Alice@Example.com'') = None"
    by (simp add: findOne_email_def)
  from register_fresh [OF stub_isEmail_alice _ this, of "''hunter22''" "''salt''" 0]
  show ?thesis
    by (simp add: new_User_def new_oid_Nil stub_normalize_alice schema_email_alice alice_def
                  stub_hash_alice)
qed

lemma reachable_alice: "reachable [alice]"
  using reachable_step [OF reachable_empty, of stub_env 0 "Register ''salt'' ''Alice@Example.com'' ''hunter22''"]
  by (simp add: stub_register_alice)

text \<open>
  Claim C8. In every collection the three routes can produce from the empty one, an
  identity whose auth provider is phone carries no password hash and an identity whose
  auth provider is email carries one; and no request changes the \<^verbatim>\<open>_id\<close>, the auth
  provider or the password hash of an identity that is already stored.
\<close>

theorem credential_invariant:
  assumes "reachable docs"
  shows "(\<forall>u \<in> set docs. (authProvider u = Phone \<longrightarrow> passwordHash u = None)
                        \<and> (authProvider u = Email \<longrightarrow> passwordHash u \<noteq> None))
       \<and> (\<forall>E now req i. i < length docs \<longrightarrow>
             i < length (snd (handle E now docs req))
           \<and> oid (snd (handle E now docs req) ! i) = oid (docs ! i)
           \<and> authProvider (snd (handle E now docs req) ! i) = authProvider (docs ! i)
           \<and> passwordHash (snd (handle E now docs req) ! i) = passwordHash (docs ! i))"
proof -
  from assms have ok: "store_ok docs" by (rule reachable_store_ok)
  have inv: "(authProvider u = Phone \<longrightarrow> passwordHash u = None)
           \<and> (authProvider u = Email \<longrightarrow> passwordHash u \<noteq> None)" if "u \<in> set docs" for u
  proof -
    from ok that have "cred_ok u" by (simp add: store_ok_def list_all_iff)
    then show ?thesis by (cases "authProvider u") (simp_all add: cred_ok_def)
  qed
  have keep: "i < length (snd (handle E now docs req))
           \<and> oid (snd (handle E now docs req) ! i) = oid (docs ! i)
           \<and> authProvider (snd (handle E now docs req) ! i) = authProvider (docs ! i)
           \<and> passwordHash (snd (handle E now docs req) ! i) = passwordHash (docs ! i)"
    if "i < length docs" for E now req i
    using handle_keeps_credentials [OF ok that, of E now req] by simp
  from inv keep show ?thesis by blast
qed

theorem credential_invariant_witness:
  "reachable [alice] \<and> authProvider alice = Email \<and> passwordHash alice = Some ''salthunter22''
   \<and> authProvider (snd (handle stub_env 500 [alice]
                           (PhoneLogin (Some ''t'') (Some ''+15550100''))) ! 0) = Email
   \<and> passwordHash (snd (handle stub_env 500 [alice]
                           (PhoneLogin (Some ''t'') (Some ''+15550100''))) ! 0)
       = Some ''salthunter22''"
proof -
  note inv = credential_invariant [OF reachable_alice]
  have kept: "authProvider (snd (handle stub_env 500 [alice]
                 (PhoneLogin (Some ''t'') (Some ''+15550100''))) ! 0) = authProvider ([alice] ! 0)
            \<and> passwordHash (snd (handle stub_env 500 [alice]
                 (PhoneLogin (Some ''t'') (Some ''+15550100''))) ! 0) = passwordHash ([alice] ! 0)"
    using inv [THEN conjunct2, rule_format, of 0 stub_env 500
                 "PhoneLogin (Some ''t'') (Some ''+15550100'')"]
    by simp
  have "authProvider alice = Email" "passwordHash alice = Some ''salthunter22''"
    by (simp_all add: alice_def)
  with kept reachable_alice show ?thesis by simp
qed

subsection \<open>The session token of a login\<close>

lemma jwt_sign_unfold:
  "jwt_sign E c k d now = jws_encode E (c\<lparr>iat := Some (now div 1000), expires := Some (now div 1000 + d)\<rparr>) k"
  by (simp add: jwt_sign_def)

lemma login_ok_cases:
  assumes "login E now docs e p = (r, docs')" "status r = 200"
  obtains u h where "isEmail E e" "p \<noteq> []" "findOne_email docs (normalizeEmail E e) = Some u"
    "passwordHash u = Some h" "bcrypt_compare E p h"
  using assms
  by (auto simp: login_def Let_def split: if_splits option.splits)

lemma stub_compare_alice: "bcrypt_compare stub_env ''hunter22'' ''salthunter22''"
  by (simp add: stub_env_def stub_compare_def)

lemma stub_encode_alice:
  "jws_encode stub_env alice_claims ''your-secret-key-change-in-production'' = ''alice.jwt''"
  by (simp add: stub_env_def stub_jws_encode_def)

lemma stub_login_alice:
  "login stub_env 500 [alice] ''Alice@Example.com'' ''hunter22'' =
     (\<lparr>status = 200, body = LoginBody ''alice.jwt'' 1 (Some ''alice@example.com'') Email\<rparr>,
      [alice\<lparr>lastLogin := 500, updatedAt := 500\<rparr>])"
proof -
  have h: "passwordHash alice = Some ''salthunter22''" by (simp add: alice_def)
  have c: "\<lparr>userId = Oid (oid alice), claim_email = email alice,
                       claim_phoneNumber = None, claim_authProvider = Email,
                       iat = Some 0, expires = Some 604800\<rparr> = alice_claims"
    by (simp add: alice_def alice_claims_def)
  show ?thesis
    using login_found [OF stub_isEmail_alice _ stub_find_alice h, of "''hunter22''" 500]
          stub_compare_alice
    by (simp add: jwt_sign_unfold seven_days_def stub_secret c stub_encode_alice
                  save_existing_def) (simp add: alice_def)
qed

text \<open>
  Claim C6. When Login answers 200 on a collection the routes can produce, the token in
  the answer is the signature, under the server's secret, of a payload that holds the
  \<^verbatim>\<open>_id\<close> of the stored identity found for the email, that identity's email and its
  auth provider (email), and nothing else but the two time stamps: issued-at, the second
  of the request, and expiry, seven days (604800 seconds) later.
\<close>

theorem login_token:
  assumes run: "login E now docs e p = (r, docs')" and ok: "status r = 200"
      and reach: "reachable docs"
  shows "\<exists>u. findOne_email docs (normalizeEmail E e) = Some u \<and> u \<in> set docs
           \<and> email u = Some (schema_email (normalizeEmail E e))
           \<and> authProvider u = Email
           \<and> body r = LoginBody
                (jws_encode E
                   \<lparr>userId = Oid (oid u), claim_email = email u, claim_phoneNumber = None,
                    claim_authProvider = authProvider u,
                    iat = Some (now div 1000),
                    expires = Some (now div 1000 + 7 * 24 * 60 * 60)\<rparr>
                   (JWT_SECRET E))
                (oid u) (email u) (authProvider u)"
proof -
  from run ok obtain u h where valid: "isEmail E e" "p \<noteq> []"
    and found: "findOne_email docs (normalizeEmail E e) = Some u"
    and hash: "passwordHash u = Some h" and match: "bcrypt_compare E p h"
    by (rule login_ok_cases)
  from found have mem: "u \<in> set docs" and key: "email u = Some (schema_email (normalizeEmail E e))"
    unfolding findOne_email_def by (auto dest: find_Some_mem)
  from reach have "store_ok docs" by (rule reachable_store_ok)
  with mem have "cred_ok u" by (simp add: store_ok_def list_all_iff)
  with hash have ap: "authProvider u = Email"
    by (cases "authProvider u") (simp_all add: cred_ok_def)
  from login_found [OF valid found hash, of now] match run
  have "body r = LoginBody
          (jwt_sign E \<lparr>userId = Oid (oid u), claim_email = email u,
                       claim_phoneNumber = None, claim_authProvider = Email,
                       iat = None, expires = None\<rparr> (JWT_SECRET E) seven_days now)
          (oid u) (email u) (authProvider u)"
    by auto
  then have "body r = LoginBody
                (jws_encode E
                   \<lparr>userId = Oid (oid u), claim_email = email u, claim_phoneNumber = None,
                    claim_authProvider = authProvider u,
                    iat = Some (now div 1000),
                    expires = Some (now div 1000 + 7 * 24 * 60 * 60)\<rparr>
                   (JWT_SECRET E))
                (oid u) (email u) (authProvider u)"
    by (simp add: jwt_sign_unfold seven_days_def ap)
  with found mem key ap show ?thesis by blast
qed

theorem login_token_witness:
  "status (fst (login stub_env 500 [alice] ''Alice@Example.com'' ''hunter22'')) = 200
   \<and> reachable [alice]
   \<and> findOne_email [alice] (normalizeEmail stub_env ''Alice@Example.com'') = Some alice
   \<and> body (fst (login stub_env 500 [alice] ''Alice@Example.com'' ''hunter22'')) =
       LoginBody
         (jws_encode stub_env
            \<lparr>userId = Oid 1, claim_email = Some ''alice@example.com'', claim_phoneNumber = None,
             claim_authProvider = Email, iat = Some 0, expires = Some 604800\<rparr>
            ''your-secret-key-change-in-production'')
         1 (Some ''alice@example.com'') Email"
proof -
  from login_token [OF stub_login_alice _ reachable_alice]
  obtain u where u: "findOne_email [alice] (normalizeEmail stub_env ''Alice@Example.com'') = Some u"
    and b: "body \<lparr>status = 200, body = LoginBody ''alice.jwt'' 1 (Some ''alice@example.com'') Email\<rparr> =
       LoginBody
                (jws_encode stub_env
                   \<lparr>userId = Oid (oid u), claim_email = email u, claim_phoneNumber = None,
                    claim_authProvider = authProvider u,
                    iat = Some (500 div 1000),
                    expires = Some (500 div 1000 + 7 * 24 * 60 * 60)\<rparr>
                   (JWT_SECRET stub_env))
                (oid u) (email u) (authProvider u)"
    by auto
  from u have "u = alice" by (simp add: stub_find_alice)
  moreover have "oid alice = 1" "email alice = Some ''alice@example.com''"
    "authProvider alice = Email"
    by (simp_all add: alice_def)
  ultimately have "''alice.jwt'' =
      jws_encode stub_env
        \<lparr>userId = Oid 1, claim_email = Some ''alice@example.com'', claim_phoneNumber = None,
         claim_authProvider = Email, iat = Some 0, expires = Some 604800\<rparr>
        ''your-secret-key-change-in-production''"
    using b by (simp add: stub_secret)
  then show ?thesis
    by (simp add: stub_login_alice reachable_alice stub_find_alice)
qed

subsection \<open>Phone login\<close>

lemma find_save_existing:
  "find P docs = Some u \<Longrightarrow> P d \<Longrightarrow> oid d = oid u \<Longrightarrow>
   find P (save_existing docs d) = Some d"
  by (induction docs) (auto simp: save_existing_def split: if_splits)

lemma phone_login_missing:
  "falsy t \<or> falsy ph \<Longrightarrow>
   phone_login E now docs t ph =
     (\<lparr>status = 400, body = ErrorBody ''Missing required fields''\<rparr>, docs)"
  by (auto simp: phone_login_def)

lemma phone_login_new:
  assumes "t \<noteq> []" "ph \<noteq> []" "findOne_phoneNumber docs ph = None"
  shows "phone_login E now docs (Some t) (Some ph) =
     (\<lparr>status = 200,
       body = PhoneLoginBody
         (jwt_sign E \<lparr>userId = Oid (new_oid docs), claim_email = None,
                      claim_phoneNumber = Some (trim ph), claim_authProvider = Phone,
                      iat = None, expires = None\<rparr> (JWT_SECRET E) seven_days now)
         (new_oid docs) (Some (trim ph)) Phone\<rparr>,
      docs @ [new_User docs now None (Some ph) None Phone])"
  using assms
  by (simp add: phone_login_def falsy_def Let_def save_new_phoneNumber)
     (simp add: new_User_def schema_phoneNumber_def)

lemma phone_login_known:
  assumes "t \<noteq> []" "ph \<noteq> []" "findOne_phoneNumber docs ph = Some u"
  shows "phone_login E now docs (Some t) (Some ph) =
     (\<lparr>status = 200,
       body = PhoneLoginBody
         (jwt_sign E \<lparr>userId = Oid (oid u), claim_email = None,
                      claim_phoneNumber = phoneNumber u, claim_authProvider = Phone,
                      iat = None, expires = None\<rparr> (JWT_SECRET E) seven_days now)
         (oid u) (phoneNumber u) (authProvider u)\<rparr>,
      save_existing docs (u\<lparr>lastLogin := now, updatedAt := now\<rparr>))"
  using assms by (simp add: phone_login_def falsy_def Let_def)

lemma trim_bob: "trim ''+15550100'' = ''+15550100''"
  by code_simp

lemma new_oid_alice: "new_oid [alice] = 2"
  by (simp add: new_oid_def alice_def)

lemma stub_find_bob_none: "findOne_phoneNumber [alice] ''+15550100'' = None"
  by (simp add: findOne_phoneNumber_def alice_def)

lemma stub_find_bob: "findOne_phoneNumber [alice, bob] ''+15550100'' = Some bob"
  by (simp add: findOne_phoneNumber_def alice_def bob_def schema_phoneNumber_def trim_bob)

lemma trim_nbsp: "trim (CHR 0xA0 # ''+15550100'') = ''+15550100''"
  by code_simp

lemma stub_find_bob_nbsp:
  "findOne_phoneNumber [alice, bob] (CHR 0xA0 # ''+15550100'') = Some bob"
  by (simp add: findOne_phoneNumber_def alice_def bob_def schema_phoneNumber_def trim_nbsp)

lemma phone_login_status:
  "status (fst (phone_login E now docs idToken ph)) = (if falsy idToken \<or> falsy ph then 400 else 200)"
proof (cases "falsy idToken \<or> falsy ph")
  case True
  then show ?thesis by (simp add: phone_login_missing)
next
  case False
  then obtain t p where given: "idToken = Some t" "t \<noteq> []" "ph = Some p" "p \<noteq> []"
    by (cases idToken; cases ph) (auto simp: falsy_def)
  show ?thesis
  proof (cases "findOne_phoneNumber docs p")
    case None
    with given False show ?thesis by (simp add: phone_login_new)
  next
    case (Some u)
    with given False show ?thesis by (simp add: phone_login_known)
  qed
qed

lemma phone_login_ignores_provider:
  "phone_login (E\<lparr>verifyIdToken := v\<rparr>) now docs idToken ph = phone_login E now docs idToken ph"
  by (simp add: phone_login_def jwt_sign_def JWT_SECRET_def)

text \<open>
  Claim C3. For a phone-login request that carries an assertion and a phone number: when
  no identity has the phone number, exactly one identity is appended, with a fresh
  \<^verbatim>\<open>_id\<close>, the auth provider phone and no password hash, and the answer is 200 with a
  session token for that \<^verbatim>\<open>_id\<close>; a later lookup of the phone number finds this
  identity. When an identity has the phone number, no identity is added, the
  \<^verbatim>\<open>_id\<close>s of the collection are unchanged, the answer is 200 with a session token for
  the \<^verbatim>\<open>_id\<close> of the identity found, and the stored identity is the one found with
  \<open>lastLogin\<close> set to the time of the request.
\<close>

theorem phone_login_create_or_update:
  assumes given: "idToken = Some t" "t \<noteq> []" "phoneNumber_in = Some ph" "ph \<noteq> []"
  shows "(findOne_phoneNumber docs ph = None \<longrightarrow>
            (\<exists>u token.
               phone_login E now docs idToken phoneNumber_in =
                 (\<lparr>status = 200, body = PhoneLoginBody token (oid u) (phoneNumber u) Phone\<rparr>,
                  docs @ [u])
             \<and> u = \<lparr>oid = new_oid docs, email = None, phoneNumber = Some (trim ph),
                    passwordHash = None, authProvider = Phone,
                    createdAt = now, lastLogin = now, updatedAt = now\<rparr>
             \<and> oid u \<notin> set (map oid docs)
             \<and> token = jwt_sign E \<lparr>userId = Oid (oid u), claim_email = None,
                    claim_phoneNumber = phoneNumber u, claim_authProvider = Phone,
                    iat = None, expires = None\<rparr> (JWT_SECRET E) seven_days now
             \<and> findOne_phoneNumber (docs @ [u]) ph = Some u))
       \<and> (\<forall>u. findOne_phoneNumber docs ph = Some u \<longrightarrow>
            (\<exists>docs' token.
               phone_login E now docs idToken phoneNumber_in =
                 (\<lparr>status = 200,
                   body = PhoneLoginBody token (oid u) (phoneNumber u) (authProvider u)\<rparr>,
                  docs')
             \<and> token = jwt_sign E \<lparr>userId = Oid (oid u), claim_email = None,
                    claim_phoneNumber = phoneNumber u, claim_authProvider = Phone,
                    iat = None, expires = None\<rparr> (JWT_SECRET E) seven_days now
             \<and> length docs' = length docs \<and> map oid docs' = map oid docs
             \<and> findOne_phoneNumber docs' ph = Some (u\<lparr>lastLogin := now, updatedAt := now\<rparr>)))"
proof (intro conjI allI impI)
  assume none: "findOne_phoneNumber docs ph = None"
  let ?u = "new_User docs now None (Some ph) None Phone"
  have shape: "?u = \<lparr>oid = new_oid docs, email = None, phoneNumber = Some (trim ph),
                    passwordHash = None, authProvider = Phone,
                    createdAt = now, lastLogin = now, updatedAt = now\<rparr>"
    by (simp add: new_User_def schema_phoneNumber_def)
  have again: "findOne_phoneNumber (docs @ [?u]) ph = Some ?u"
    using none unfolding findOne_phoneNumber_def
    by (intro find_append_new) (simp_all add: new_User_def)
  have fresh: "oid ?u \<notin> set (map oid docs)"
    using new_oid_fresh [of docs] by (simp add: new_User_def)
  from phone_login_new [OF given(2) given(4) none, of E now] shape again fresh
  show "\<exists>u token.
               phone_login E now docs idToken phoneNumber_in =
                 (\<lparr>status = 200, body = PhoneLoginBody token (oid u) (phoneNumber u) Phone\<rparr>,
                  docs @ [u])
             \<and> u = \<lparr>oid = new_oid docs, email = None, phoneNumber = Some (trim ph),
                    passwordHash = None, authProvider = Phone,
                    createdAt = now, lastLogin = now, updatedAt = now\<rparr>
             \<and> oid u \<notin> set (map oid docs)
             \<and> token = jwt_sign E \<lparr>userId = Oid (oid u), claim_email = None,
                    claim_phoneNumber = phoneNumber u, claim_authProvider = Phone,
                    iat = None, expires = None\<rparr> (JWT_SECRET E) seven_days now
             \<and> findOne_phoneNumber (docs @ [u]) ph = Some u"
    unfolding given by (intro exI [of _ ?u]) simp
next
  fix u
  assume found: "findOne_phoneNumber docs ph = Some u"
  let ?u' = "u\<lparr>lastLogin := now, updatedAt := now\<rparr>"
  from found have key: "phoneNumber u = Some (schema_phoneNumber ph)"
    unfolding findOne_phoneNumber_def by (auto dest: find_Some_mem)
  have again: "findOne_phoneNumber (save_existing docs ?u') ph = Some ?u'"
    using found key unfolding findOne_phoneNumber_def
    by (intro find_save_existing) simp_all
  have len: "length (save_existing docs ?u') = length docs"
    by (simp add: save_existing_def)
  from phone_login_known [OF given(2) given(4) found, of E now] again len
       save_existing_oids [of docs ?u']
  show "\<exists>docs' token.
               phone_login E now docs idToken phoneNumber_in =
                 (\<lparr>status = 200,
                   body = PhoneLoginBody token (oid u) (phoneNumber u) (authProvider u)\<rparr>,
                  docs')
             \<and> token = jwt_sign E \<lparr>userId = Oid (oid u), claim_email = None,
                    claim_phoneNumber = phoneNumber u, claim_authProvider = Phone,
                    iat = None, expires = None\<rparr> (JWT_SECRET E) seven_days now
             \<and> length docs' = length docs \<and> map oid docs' = map oid docs
             \<and> findOne_phoneNumber docs' ph = Some (u\<lparr>lastLogin := now, updatedAt := now\<rparr>)"
    unfolding given by (intro exI [of _ "save_existing docs ?u'"]) simp
qed

theorem phone_login_create_or_update_witness:
  "snd (phone_login stub_env 500 [alice] (Some ''firebase.idtoken'') (Some ''+15550100''))
     = [alice, bob]
   \<and> status (fst (phone_login stub_env 500 [alice] (Some ''firebase.idtoken'')
                    (Some ''+15550100''))) = 200
   \<and> status (fst (phone_login stub_env 900 [alice, bob] (Some ''firebase.idtoken'')
                    (Some ''+15550100''))) = 200
   \<and> length (snd (phone_login stub_env 900 [alice, bob] (Some ''firebase.idtoken'')
                    (Some ''+15550100''))) = 2
   \<and> findOne_phoneNumber
        (snd (phone_login stub_env 900 [alice, bob] (Some ''firebase.idtoken'')
                (Some ''+15550100''))) ''+15550100''
       = Some (bob\<lparr>lastLogin := 900, updatedAt := 900\<rparr>)
   \<and> status (fst (phone_login stub_env 900 [alice, bob] (Some ''firebase.idtoken'')
                    (Some (CHR 0xA0 # ''+15550100'')))) = 200
   \<and> map oid (snd (phone_login stub_env 900 [alice, bob] (Some ''firebase.idtoken'')
                    (Some (CHR 0xA0 # ''+15550100'')))) = [1, 2]
   \<and> findOne_phoneNumber
        (snd (phone_login stub_env 900 [alice, bob] (Some ''firebase.idtoken'')
                (Some (CHR 0xA0 # ''+15550100'')))) ''+15550100''
       = Some (bob\<lparr>lastLogin := 900, updatedAt := 900\<rparr>)"
proof -
  note cu = phone_login_create_or_update
    [of "Some ''firebase.idtoken''" "''firebase.idtoken''" "Some ''+15550100''" "''+15550100''"]
  from cu [of "[alice]" stub_env 500] stub_find_bob_none
  obtain u token where
    run: "phone_login stub_env 500 [alice] (Some ''firebase.idtoken'') (Some ''+15550100'') =
            (\<lparr>status = 200, body = PhoneLoginBody token (oid u) (phoneNumber u) Phone\<rparr>,
             [alice] @ [u])"
    and shape: "u = \<lparr>oid = new_oid [alice], email = None, phoneNumber = Some (trim ''+15550100''),
                    passwordHash = None, authProvider = Phone,
                    createdAt = 500, lastLogin = 500, updatedAt = 500\<rparr>"
    by auto
  from shape have u: "u = bob"
    by (simp add: new_oid_alice trim_bob bob_def)
  from cu [of "[alice, bob]" stub_env 900] stub_find_bob
  obtain docs' token' where
    run': "phone_login stub_env 900 [alice, bob] (Some ''firebase.idtoken'') (Some ''+15550100'') =
            (\<lparr>status = 200,
              body = PhoneLoginBody token' (oid bob) (phoneNumber bob) (authProvider bob)\<rparr>, docs')"
    and len: "length docs' = length [alice, bob]"
    and again: "findOne_phoneNumber docs' ''+15550100'' = Some (bob\<lparr>lastLogin := 900, updatedAt := 900\<rparr>)"
    by auto
  from phone_login_create_or_update
         [of "Some ''firebase.idtoken''" "''firebase.idtoken''"
             "Some (CHR 0xA0 # ''+15550100'')" "CHR 0xA0 # ''+15550100''"
             "[alice, bob]" stub_env 900]
       stub_find_bob_nbsp
  obtain docs2 token2 where
    run2: "phone_login stub_env 900 [alice, bob] (Some ''firebase.idtoken'')
             (Some (CHR 0xA0 # ''+15550100'')) =
            (\<lparr>status = 200,
              body = PhoneLoginBody token2 (oid bob) (phoneNumber bob) (authProvider bob)\<rparr>, docs2)"
    and oids2: "map oid docs2 = map oid [alice, bob]"
    and again2: "findOne_phoneNumber docs2 (CHR 0xA0 # ''+15550100'')
                   = Some (bob\<lparr>lastLogin := 900, updatedAt := 900\<rparr>)"
    by auto
  have same_key: "findOne_phoneNumber docs2 ''+15550100''
                    = findOne_phoneNumber docs2 (CHR 0xA0 # ''+15550100'')"
    by (simp add: findOne_phoneNumber_def schema_phoneNumber_def trim_bob trim_nbsp)
  have oids: "map oid [alice, bob] = [1, 2]"
    by (simp add: alice_def bob_def)
  show ?thesis
    using run u run' len again run2 oids2 again2 same_key oids by simp
qed

text \<open>
  Claim C2, as the code has it. The route never consults the identity provider: its
  answer and the collection it leaves are the same whatever \<^verbatim>\<open>verifyIdToken\<close> would
  return, also when the provider is unavailable. It succeeds (200) exactly when
  \<^verbatim>\<open>idToken\<close> and \<^verbatim>\<open>phoneNumber\<close> are both present and non-empty; otherwise it answers
  400 \<^verbatim>\<open>Missing required fields\<close> and leaves the collection unchanged. No other
  status, in particular no ServiceUnavailable one, is produced.
\<close>

theorem phone_login_unverified:
  "phone_login (E\<lparr>verifyIdToken := v\<rparr>) now docs idToken ph = phone_login E now docs idToken ph
   \<and> status (fst (phone_login E now docs idToken ph))
       = (if falsy idToken \<or> falsy ph then 400 else 200)
   \<and> (falsy idToken \<or> falsy ph \<longrightarrow>
        phone_login E now docs idToken ph =
          (\<lparr>status = 400, body = ErrorBody ''Missing required fields''\<rparr>, docs))"
proof (intro conjI impI)
  show "phone_login (E\<lparr>verifyIdToken := v\<rparr>) now docs idToken ph
          = phone_login E now docs idToken ph"
    by (rule phone_login_ignores_provider)
  show "status (fst (phone_login E now docs idToken ph))
          = (if falsy idToken \<or> falsy ph then 400 else 200)"
    by (rule phone_login_status)
  assume "falsy idToken \<or> falsy ph"
  then show "phone_login E now docs idToken ph =
      (\<lparr>status = 400, body = ErrorBody ''Missing required fields''\<rparr>, docs)"
    by (rule phone_login_missing)
qed

theorem phone_login_unverified_witness:
  "status (fst (phone_login stub_env 500 [alice] (Some ''forged'') (Some ''+15550100''))) = 200
   \<and> phone_login stub_env 500 [alice] None (Some ''+15550100'') =
       (\<lparr>status = 400, body = ErrorBody ''Missing required fields''\<rparr>, [alice])
   \<and> phone_login (stub_env\<lparr>verifyIdToken := \<lambda>t. None\<rparr>) 500 [alice] (Some ''forged'')
        (Some ''+15550100'')
       = phone_login stub_env 500 [alice] (Some ''forged'') (Some ''+15550100'')"
  using phone_login_unverified [where E = stub_env and v = "\<lambda>t. None" and now = 500
                                  and docs = "[alice]" and idToken = "Some ''forged''"
                                  and ph = "Some ''+15550100''"]
        phone_login_unverified [where E = stub_env and v = "\<lambda>t. None" and now = 500
                                  and docs = "[alice]" and idToken = None
                                  and ph = "Some ''+15550100''"]
  by (simp add: falsy_def)

text \<open>
  The claim as stated fails: an assertion the provider rejects logs in and creates an
  identity for the claimed phone number; an authentic assertion for one phone number
  logs in as another; and with a provider that verifies nothing the route still answers
  200.
\<close>

theorem phone_login_forged_counterexample:
  "verifyIdToken stub_env ''forged'' = None
   \<and> status (fst (phone_login stub_env 500 [alice] (Some ''forged'') (Some ''+15550100''))) = 200
   \<and> snd (phone_login stub_env 500 [alice] (Some ''forged'') (Some ''+15550100'')) = [alice, bob]
   \<and> verifyIdToken stub_env ''firebase.idtoken''
       = Some \<lparr>uid = ''fb-uid-1'', phone_number = Some ''+15550100''\<rparr>
   \<and> status (fst (phone_login stub_env 500 [alice] (Some ''firebase.idtoken'')
                    (Some ''+15559999''))) = 200
   \<and> status (fst (phone_login (stub_env\<lparr>verifyIdToken := \<lambda>t. None\<rparr>) 500 [alice]
                    (Some ''firebase.idtoken'') (Some ''+15550100''))) = 200"
proof -
  have a: "verifyIdToken stub_env ''forged'' = None"
    by (simp add: stub_env_def stub_verifyIdToken_def)
  have b: "verifyIdToken stub_env ''firebase.idtoken''
       = Some \<lparr>uid = ''fb-uid-1'', phone_number = Some ''+15550100''\<rparr>"
    by (simp add: stub_env_def stub_verifyIdToken_def)
  have c: "snd (phone_login stub_env 500 [alice] (Some ''forged'') (Some ''+15550100'')) = [alice, bob]"
    using phone_login_new [OF _ _ stub_find_bob_none, of "''forged''" stub_env 500]
    by (simp add: new_User_def new_oid_alice schema_phoneNumber_def trim_bob bob_def)
  show ?thesis
    using a b c by (simp add: phone_login_status falsy_def)
qed

subsection \<open>Expiry of a session token\<close>

lemma alice_payload:
  "\<lparr>userId = Oid 1, claim_email = Some ''alice@example.com'', claim_phoneNumber = None,
    claim_authProvider = Email, iat = None, expires = None\<rparr>
     \<lparr>iat := Some (500 div 1000), expires := Some (500 div 1000 + seven_days)\<rparr> = alice_claims"
  by (simp add: alice_claims_def seven_days_def)

lemma stub_sign_alice:
  "jwt_sign stub_env
     \<lparr>userId = Oid 1, claim_email = Some ''alice@example.com'', claim_phoneNumber = None,
      claim_authProvider = Email, iat = None, expires = None\<rparr>
     (JWT_SECRET stub_env) seven_days 500 = ''alice.jwt''"
  unfolding jwt_sign_def alice_payload by (simp add: stub_secret stub_encode_alice)

lemma stub_decode_alice: "jws_decode stub_env ''alice.jwt'' (JWT_SECRET stub_env) = Some alice_claims"
  by (simp add: stub_secret) (simp add: stub_env_def stub_jws_decode_def)

text \<open>
  Claim C7, as the code has it. A token signed with \<^verbatim>\<open>expiresIn: '7d'\<close> at time
  \<open>issued\<close>, which the signature scheme decodes back to its payload under the server
  secret, carries \<open>exp = floor(issued / 1000) + 604800\<close>. The gate accepts it, with the
  payload as principal, at every time whose second is strictly before \<open>exp\<close>. From the
  second \<open>exp\<close> itself on, \<^verbatim>\<open>jwt.verify\<close> throws \<^verbatim>\<open>TokenExpiredError\<close>, and, the token
  not being an assertion of the identity provider, the gate rejects it with 401; so it
  does one second after \<open>exp\<close>.
\<close>

theorem session_expiry:
  assumes token: "token = jwt_sign E payload (JWT_SECRET E) seven_days issued"
      and codec: "jws_decode E token (JWT_SECRET E) =
                    Some (payload\<lparr>iat := Some (issued div 1000),
                                   expires := Some (issued div 1000 + seven_days)\<rparr>)"
  shows "(now div 1000 < issued div 1000 + 604800 \<longrightarrow>
            verifyToken E now (Some (''Bearer '' @ token)) =
              Next (payload\<lparr>iat := Some (issued div 1000),
                            expires := Some (issued div 1000 + 604800)\<rparr>))
       \<and> (issued div 1000 + 604800 \<le> now div 1000 \<longrightarrow>
            jwt_verify E token (JWT_SECRET E) now = Inl TokenExpiredError)
       \<and> (issued div 1000 + 604800 \<le> now div 1000 \<and> verifyIdToken E token = None \<longrightarrow>
            verifyToken E now (Some (''Bearer '' @ token)) = Reject 401 ''Invalid token'')"
proof -
  have v: "jwt_verify E token (JWT_SECRET E) now =
      (if issued div 1000 + 604800 \<le> now div 1000 then Inl TokenExpiredError
       else Inr (payload\<lparr>iat := Some (issued div 1000),
                         expires := Some (issued div 1000 + 604800)\<rparr>))"
    using codec by (simp add: jwt_verify_def seven_days_def)
  show ?thesis
    unfolding verifyToken_bearer v by simp
qed

theorem session_expiry_witness:
  "verifyToken stub_env 604799999 (Some ''Bearer alice.jwt'') = Next alice_claims
   \<and> verifyToken stub_env 604800000 (Some ''Bearer alice.jwt'') = Reject 401 ''Invalid token''
   \<and> verifyToken stub_env 604801000 (Some ''Bearer alice.jwt'') = Reject 401 ''Invalid token''"
proof -
  have codec: "jws_decode stub_env ''alice.jwt'' (JWT_SECRET stub_env) =
      Some (\<lparr>userId = Oid 1, claim_email = Some ''alice@example.com'', claim_phoneNumber = None,
             claim_authProvider = Email, iat = None, expires = None\<rparr>
             \<lparr>iat := Some (500 div 1000), expires := Some (500 div 1000 + seven_days)\<rparr>)"
    unfolding alice_payload by (rule stub_decode_alice)
  have none: "verifyIdToken stub_env ''alice.jwt'' = None"
    by (simp add: stub_env_def stub_verifyIdToken_def)
  note se = session_expiry [OF stub_sign_alice [symmetric] codec]
  have c: "\<lparr>userId = Oid 1, claim_email = Some ''alice@example.com'', claim_phoneNumber = None,
             claim_authProvider = Email, iat = None, expires = None\<rparr>
             \<lparr>iat := Some (500 div 1000), expires := Some (500 div 1000 + 604800)\<rparr> = alice_claims"
    by (simp add: alice_claims_def)
  show ?thesis
    using se [of 604799999] se [of 604800000] se [of 604801000] none
    unfolding c by simp
qed

text \<open>
  The boundary itself is not accepted: the token Alice's login issues at 500 ms expires
  at second 604800, and at 604800000 ms, exactly seven days after the second of its
  issue, the gate answers 401.
\<close>

theorem session_expiry_counterexample:
  "body (fst (login stub_env 500 [alice] ''Alice@Example.com'' ''hunter22''))
     = LoginBody ''alice.jwt'' 1 (Some ''alice@example.com'') Email
   \<and> (500 div 1000 + 7 * 24 * 60 * 60) * 1000 = (604800000 :: nat)
   \<and> verifyToken stub_env 604800000 (Some ''Bearer alice.jwt'') = Reject 401 ''Invalid token''"
proof -
  have none: "verifyIdToken stub_env ''alice.jwt'' = None"
    by (simp add: stub_env_def stub_verifyIdToken_def)
  have "verifyToken stub_env 604800000 (Some (''Bearer '' @ ''alice.jwt'')) = Reject 401 ''Invalid token''"
    unfolding verifyToken_bearer by (simp add: stub_secret stub_verify_alice none)
  then show ?thesis
    by (simp add: stub_login_alice)
qed

subsection \<open>Spellings of an email\<close>

lemma stub_isEmail_upper: "isEmail stub_env ''ALICE@EXAMPLE.COM''"
  unfolding stub_env_def by (simp, code_simp)

lemma stub_isEmail_plain: "isEmail stub_env ''alice@example.com''"
  unfolding stub_env_def by (simp, code_simp)

lemma stub_isEmail_padded: "\<not> isEmail stub_env '' alice@example.com''"
  unfolding stub_env_def by (simp, code_simp)

lemma stub_normalize_upper: "normalizeEmail stub_env ''ALICE@EXAMPLE.COM'' = ''alice@example.com''"
  unfolding stub_env_def by (simp, code_simp)

lemma stub_normalize_plain: "normalizeEmail stub_env ''alice@example.com'' = ''alice@example.com''"
  unfolding stub_env_def by (simp, code_simp)

lemma trim_padded: "trim '' alice@example.com'' = ''alice@example.com''"
  by code_simp

text \<open>
  Claim C10, as the code has it. The schema lowercases and trims an email when it is
  stored and when it is looked up; the request validators check the email as it was
  sent and only then rewrite it. So for two spellings that both pass \<^verbatim>\<open>isEmail\<close> and
  whose rewritten forms agree up to letter case and surrounding whitespace: after
  Register with the first (on a collection that has no identity for it), the stored
  email is the lowercased, trimmed form, Login with the second finds that same identity
  (200 with a token for its \<^verbatim>\<open>_id\<close> when the password matches, 401 otherwise, never
  404), and Register with the second answers 400 already-registered and adds nothing. A
  spelling that \<^verbatim>\<open>isEmail\<close> rejects is answered 400 by both routes, whatever is stored.
\<close>

theorem email_spellings:
  assumes valid: "isEmail E e" "isEmail E e'" and long: "6 \<le> length p"
      and fresh: "findOne_email docs (normalizeEmail E e) = None"
      and same: "schema_email (normalizeEmail E e') = schema_email (normalizeEmail E e)"
  shows "\<exists>u. register E salt now docs e p =
               (\<lparr>status = 201, body = RegisteredBody ''Registration successful'' True\<rparr>,
                docs @ [u])
           \<and> email u = Some (toLowerCase (trim (normalizeEmail E e)))
           \<and> findOne_email (docs @ [u]) (normalizeEmail E e') = Some u
           \<and> (\<forall>now2 p2. p2 \<noteq> [] \<and> bcrypt_compare E p2 (bcrypt_hash E p salt) \<longrightarrow>
                 fst (login E now2 (docs @ [u]) e' p2) =
                   \<lparr>status = 200,
                    body = LoginBody
                      (jwt_sign E \<lparr>userId = Oid (oid u), claim_email = email u,
                                   claim_phoneNumber = None, claim_authProvider = Email,
                                   iat = None, expires = None\<rparr>
                         (JWT_SECRET E) seven_days now2)
                      (oid u) (email u) Email\<rparr>)
           \<and> (\<forall>now2 p2. p2 \<noteq> [] \<and> \<not> bcrypt_compare E p2 (bcrypt_hash E p salt) \<longrightarrow>
                 login E now2 (docs @ [u]) e' p2 =
                   (\<lparr>status = 401, body = ErrorBody ''Incorrect password.''\<rparr>, docs @ [u]))
           \<and> (\<forall>salt2 now2 p2. 6 \<le> length p2 \<longrightarrow>
                 register E salt2 now2 (docs @ [u]) e' p2 =
                   (\<lparr>status = 400,
                     body = ErrorBody ''User already registered. Please login.''\<rparr>,
                    docs @ [u]))
           \<and> (\<forall>bad now2 salt2 p2. \<not> isEmail E bad \<longrightarrow>
                 login E now2 (docs @ [u]) bad p2 =
                   (\<lparr>status = 400, body = ErrorBody ''Invalid email or password format''\<rparr>,
                    docs @ [u])
               \<and> register E salt2 now2 (docs @ [u]) bad p2 =
                   (\<lparr>status = 400, body = ErrorBody ''Invalid email or password format''\<rparr>,
                    docs @ [u]))"
proof -
  let ?u = "new_User docs now (Some (normalizeEmail E e)) None (Some (bcrypt_hash E p salt)) Email"
  let ?docs = "docs @ [?u]"
  have first: "register E salt now docs e p =
      (\<lparr>status = 201, body = RegisteredBody ''Registration successful'' True\<rparr>, ?docs)"
    using valid(1) long fresh by (rule register_fresh)
  have stored: "email ?u = Some (toLowerCase (trim (normalizeEmail E e)))"
    by (simp add: new_User_def schema_email_def)
  have hash: "passwordHash ?u = Some (bcrypt_hash E p salt)"
    and ap: "authProvider ?u = Email"
    by (simp_all add: new_User_def)
  have found: "findOne_email ?docs (normalizeEmail E e') = Some ?u"
    using fresh same by (rule findOne_email_created)
  have good: "fst (login E now2 ?docs e' p2) =
      \<lparr>status = 200,
       body = LoginBody
         (jwt_sign E \<lparr>userId = Oid (oid ?u), claim_email = email ?u,
                      claim_phoneNumber = None, claim_authProvider = Email,
                      iat = None, expires = None\<rparr>
            (JWT_SECRET E) seven_days now2)
         (oid ?u) (email ?u) Email\<rparr>"
    if "p2 \<noteq> [] \<and> bcrypt_compare E p2 (bcrypt_hash E p salt)" for now2 p2
    using login_found [OF valid(2) _ found hash, of p2 now2] that by (simp add: ap)
  have wrong: "login E now2 ?docs e' p2 =
      (\<lparr>status = 401, body = ErrorBody ''Incorrect password.''\<rparr>, ?docs)"
    if "p2 \<noteq> [] \<and> \<not> bcrypt_compare E p2 (bcrypt_hash E p salt)" for now2 p2
    using login_found [OF valid(2) _ found hash, of p2 now2] that by simp
  have taken: "register E salt2 now2 ?docs e' p2 =
      (\<lparr>status = 400, body = ErrorBody ''User already registered. Please login.''\<rparr>, ?docs)"
    if "6 \<le> length p2" for salt2 now2 p2
    using valid(2) that found by (rule register_taken)
  have bad: "login E now2 ?docs bad p2 =
        (\<lparr>status = 400, body = ErrorBody ''Invalid email or password format''\<rparr>, ?docs)
      \<and> register E salt2 now2 ?docs bad p2 =
        (\<lparr>status = 400, body = ErrorBody ''Invalid email or password format''\<rparr>, ?docs)"
    if "\<not> isEmail E bad" for bad now2 salt2 p2
    using that by (simp add: login_invalid register_invalid)
  show ?thesis
    apply (rule exI [of _ ?u])
    apply (intro conjI allI impI)
    subgoal by (rule first)
    subgoal by (rule stored)
    subgoal by (rule found)
    subgoal by (rule good)
    subgoal by (rule wrong)
    subgoal by (rule taken)
    subgoal using bad by blast
    subgoal using bad by blast
    done
qed

theorem email_spellings_witness:
  "register stub_env ''salt'' 0 [] ''Alice@Example.com'' ''hunter22'' =
     (\<lparr>status = 201, body = RegisteredBody ''Registration successful'' True\<rparr>, [alice])
   \<and> findOne_email [alice] (normalizeEmail stub_env ''ALICE@EXAMPLE.COM'') = Some alice
   \<and> status (fst (login stub_env 500 [alice] ''ALICE@EXAMPLE.COM'' ''hunter22'')) = 200
   \<and> login stub_env 500 [alice] ''ALICE@EXAMPLE.COM'' ''hunter23'' =
       (\<lparr>status = 401, body = ErrorBody ''Incorrect password.''\<rparr>, [alice])
   \<and> register stub_env ''pepr'' 500 [alice] ''ALICE@EXAMPLE.COM'' ''hunter23'' =
       (\<lparr>status = 400, body = ErrorBody ''User already registered. Please login.''\<rparr>, [alice])"
proof -
  have fresh: "findOne_email [] (normalizeEmail stub_env ''Alice@Example.com'') = None"
    by (simp add: findOne_email_def)
  have same: "schema_email (normalizeEmail stub_env ''ALICE@EXAMPLE.COM'')
                = schema_email (normalizeEmail stub_env ''Alice@Example.com'')"
    by (simp add: stub_normalize_upper stub_normalize_alice)
  have right: "bcrypt_compare stub_env ''hunter22'' (bcrypt_hash stub_env ''hunter22'' ''salt'')"
    by (simp add: stub_hash_alice stub_compare_alice)
  have wrong: "\<not> bcrypt_compare stub_env ''hunter23'' (bcrypt_hash stub_env ''hunter22'' ''salt'')"
    by (simp add: stub_hash_alice) (simp add: stub_env_def stub_compare_def)
  from email_spellings [OF stub_isEmail_alice stub_isEmail_upper _ fresh same,
      of "''hunter22''" "''salt''" 0]
  obtain u where
    first: "register stub_env ''salt'' 0 [] ''Alice@Example.com'' ''hunter22'' =
       (\<lparr>status = 201, body = RegisteredBody ''Registration successful'' True\<rparr>, [] @ [u])"
    and found: "findOne_email ([] @ [u]) (normalizeEmail stub_env ''ALICE@EXAMPLE.COM'') = Some u"
    and good: "\<And>now2 p2. p2 \<noteq> [] \<and> bcrypt_compare stub_env p2 (bcrypt_hash stub_env ''hunter22'' ''salt'') \<Longrightarrow>
                 status (fst (login stub_env now2 ([] @ [u]) ''ALICE@EXAMPLE.COM'' p2)) = 200"
    and bad: "\<And>now2 p2. p2 \<noteq> [] \<and> \<not> bcrypt_compare stub_env p2 (bcrypt_hash stub_env ''hunter22'' ''salt'') \<Longrightarrow>
                 login stub_env now2 ([] @ [u]) ''ALICE@EXAMPLE.COM'' p2 =
                   (\<lparr>status = 401, body = ErrorBody ''Incorrect password.''\<rparr>, [] @ [u])"
    and taken: "\<And>salt2 now2 p2. 6 \<le> length p2 \<Longrightarrow>
                 register stub_env salt2 now2 ([] @ [u]) ''ALICE@EXAMPLE.COM'' p2 =
                   (\<lparr>status = 400,
                     body = ErrorBody ''User already registered. Please login.''\<rparr>,
                    [] @ [u])"
    by auto
  from first have u: "u = alice" by (simp add: stub_register_alice)
  show ?thesis
    using first found good [of "''hunter22''" 500] bad [of "''hunter23''" 500]
          taken [of "''hunter23''" "''pepr''" 500] right wrong
    by (simp add: u)
qed

text \<open>
  Surrounding whitespace is not tolerated at the interface: the validators do not trim,
  so after Alice registered, Login with a leading blank before her address is answered
  400 and does not authenticate, and Register with it is a validation failure.
\<close>

theorem email_whitespace_counterexample:
  "trim '' alice@example.com'' = ''alice@example.com''
   \<and> register stub_env ''salt'' 0 [] ''alice@example.com'' ''hunter22'' =
       (\<lparr>status = 201, body = RegisteredBody ''Registration successful'' True\<rparr>, [alice])
   \<and> login stub_env 500 [alice] '' alice@example.com'' ''hunter22'' =
       (\<lparr>status = 400, body = ErrorBody ''Invalid email or password format''\<rparr>, [alice])
   \<and> register stub_env ''salt'' 500 [alice] '' alice@example.com'' ''hunter22'' =
       (\<lparr>status = 400, body = ErrorBody ''Invalid email or password format''\<rparr>, [alice])"
proof -
  have fresh: "findOne_email [] (normalizeEmail stub_env ''alice@example.com'') = None"
    by (simp add: findOne_email_def)
  have first: "register stub_env ''salt'' 0 [] ''alice@example.com'' ''hunter22'' =
       (\<lparr>status = 201, body = RegisteredBody ''Registration successful'' True\<rparr>, [alice])"
    using register_fresh [OF stub_isEmail_plain _ fresh, of "''hunter22''" "''salt''" 0]
    by (simp add: new_User_def new_oid_Nil stub_normalize_plain schema_email_alice alice_def
                  stub_hash_alice)
  show ?thesis
    using first stub_isEmail_padded
    by (simp add: trim_padded login_invalid register_invalid)
qed

end
